theory Spec2Isabelle
  imports Main
begin

section \<open>Python values\<close>

text \<open>
  The adapter in \<^verbatim>\<open>main.py\<close> builds dictionaries, hands them to an HTTP client and relays
  the decoded JSON body. The values it touches are the ones \<^verbatim>\<open>json.loads\<close> produces.
  A Python \<^verbatim>\<open>str\<close> is modelled by its UTF-8 bytes: the program only concatenates strings
  and tests them for emptiness, and both commute with the encoding. A \<^verbatim>\<open>dict\<close> is an
  association list in insertion order (JSON object keys are strings).
\<close>

datatype pyfloat = Finite bool nat int | Infinity bool | NaN
  \<comment> \<open>sign, mantissa and binary exponent of a finite double; signed infinity; not-a-number\<close>

datatype json =
    JNull
  | JBool bool
  | JInt int
  | JFloat pyfloat
  | JStr string
  | JList "json list"
  | JDict "(string \<times> json) list"

type_synonym dict = "(string \<times> json) list"

datatype py_error = AttributeError | TypeError

text \<open>\<^verbatim>\<open>d[k] = v\<close>: an existing key keeps its position, a new key is appended.\<close>

fun dict_set :: "'k \<Rightarrow> 'v \<Rightarrow> ('k \<times> 'v) list \<Rightarrow> ('k \<times> 'v) list" where
  "dict_set k v [] = [(k, v)]"
| "dict_set k v (p # ps) = (if fst p = k then (k, v) # ps else p # dict_set k v ps)"

text \<open>\<^verbatim>\<open>x.get(k, default)\<close>: only a dict has the method.\<close>

definition dict_get :: "dict \<Rightarrow> string \<Rightarrow> json \<Rightarrow> json" where
  "dict_get d k dflt = (case map_of d k of None \<Rightarrow> dflt | Some v \<Rightarrow> v)"

fun py_get :: "json \<Rightarrow> string \<Rightarrow> json \<Rightarrow> py_error + json" where
  "py_get (JDict d) k dflt = Inr (dict_get d k dflt)"
| "py_get _ k dflt = Inl AttributeError"

text \<open>\<^verbatim>\<open>x[k] = v\<close> for a string key.\<close>

fun py_setitem :: "json \<Rightarrow> string \<Rightarrow> json \<Rightarrow> py_error + json" where
  "py_setitem (JDict d) k v = Inr (JDict (dict_set k v d))"
| "py_setitem _ k v = Inl TypeError"

text \<open>\<^verbatim>\<open>x == 0\<close>: Python compares numbers by value, so \<^verbatim>\<open>False\<close> and \<^verbatim>\<open>0.0\<close> equal \<^verbatim>\<open>0\<close>.\<close>

fun float_is_zero :: "pyfloat \<Rightarrow> bool" where
  "float_is_zero (Finite s m e) = (m = 0)"
| "float_is_zero _ = False"

fun py_eq_zero :: "json \<Rightarrow> bool" where
  "py_eq_zero (JInt n) = (n = 0)"
| "py_eq_zero (JBool b) = (\<not> b)"
| "py_eq_zero (JFloat f) = float_is_zero f"
| "py_eq_zero _ = False"

text \<open>Truth value of an object, as \<^verbatim>\<open>if x:\<close> and \<^verbatim>\<open>not x\<close> take it.\<close>

fun py_truthy :: "json \<Rightarrow> bool" where
  "py_truthy JNull = False"
| "py_truthy (JBool b) = b"
| "py_truthy (JInt n) = (n \<noteq> 0)"
| "py_truthy (JFloat f) = (\<not> float_is_zero f)"
| "py_truthy (JStr s) = (s \<noteq> [])"
| "py_truthy (JList xs) = (xs \<noteq> [])"
| "py_truthy (JDict d) = (d \<noteq> [])"

text \<open>
  \<^verbatim>\<open>s in x\<close> for a string \<open>s\<close>: key membership in a dict, element membership in a list,
  substring test in a string, \<^verbatim>\<open>TypeError\<close> on anything that is not a container.
\<close>

fun starts_with :: "'a list \<Rightarrow> 'a list \<Rightarrow> bool" where
  "starts_with ys [] = True"
| "starts_with [] (x # xs) = False"
| "starts_with (y # ys) (x # xs) = (x = y \<and> starts_with ys xs)"

fun has_substring :: "'a list \<Rightarrow> 'a list \<Rightarrow> bool" where
  "has_substring [] xs = (xs = [])"
| "has_substring (y # ys) xs = (starts_with (y # ys) xs \<or> has_substring ys xs)"

fun py_str_in :: "string \<Rightarrow> json \<Rightarrow> py_error + bool" where
  "py_str_in s (JDict d) = Inr (map_of d s \<noteq> None)"
| "py_str_in s (JList xs) = Inr (JStr s \<in> set xs)"
| "py_str_in s (JStr t) = Inr (has_substring t s)"
| "py_str_in s _ = Inl TypeError"

text \<open>
  \<^verbatim>\<open>str(x)\<close>, which an f-string applies to an interpolated value. It is the identity on a
  string and fixed for \<^verbatim>\<open>None\<close>, booleans and integers. The text Python prints for a float,
  a list or a dict (shortest round-trip digits, \<^verbatim>\<open>repr\<close> of nested strings) belongs to the
  interpreter, not to this program: it is the parameter \<open>str_of\<close>.
\<close>

fun nat_str :: "nat \<Rightarrow> string" where
  "nat_str n =
     (if n < 10 then [char_of (48 + n)]
      else nat_str (n div 10) @ [char_of (48 + n mod 10)])"

declare nat_str.simps [simp del]

definition int_str :: "int \<Rightarrow> string" where
  "int_str i = (if i < 0 then CHR ''-'' # nat_str (nat (- i)) else nat_str (nat i))"

fun py_str :: "(json \<Rightarrow> string) \<Rightarrow> json \<Rightarrow> string" where
  "py_str str_of (JStr s) = s"
| "py_str str_of JNull = ''None''"
| "py_str str_of (JBool b) = (if b then ''True'' else ''False'')"
| "py_str str_of (JInt i) = int_str i"
| "py_str str_of v = str_of v"

section \<open>The HTTP invoker\<close>

text \<open>
  What \<^verbatim>\<open>client.request\<close> is called with. \<open>req_headers\<close> are the per-request headers; the
  client built by \<^verbatim>\<open>get_client\<close> adds its own fixed ones (user agent, content type), none
  of which is \<^verbatim>\<open>Authorization\<close>.
\<close>

record request =
  req_method :: string
  req_url :: string
  req_headers :: "(string \<times> string) list"
  req_params :: "dict option"
  req_json :: "dict option"

text \<open>
  A response, as far as \<^verbatim>\<open>make_api_request\<close> looks at it: the status code,
  the text of the error \<^verbatim>\<open>raise_for_status\<close> raises for it, and what \<^verbatim>\<open>response.json()\<close>
  does (\<open>Inl\<close> the text of the decoding error, \<open>Inr\<close> the parsed body).
\<close>

record response =
  status_code :: nat
  status_error :: string
  json_result :: "string + json"

text \<open>
  The network: \<^verbatim>\<open>client.request\<close> either raises (\<open>Inl\<close> the text \<^verbatim>\<open>str(e)\<close> of the
  exception) or returns a response. The answer may depend on the requests sent before,
  which are kept in a log, oldest first. Exceptions are those of class \<^verbatim>\<open>Exception\<close>,
  the ones \<^verbatim>\<open>except Exception\<close> catches.
\<close>

type_synonym backend = "request list \<Rightarrow> request \<Rightarrow> string + response"

definition raise_for_status :: "response \<Rightarrow> string + unit" where
  "raise_for_status r =
     (if 200 \<le> status_code r \<and> status_code r < 300 then Inr () else Inl (status_error r))"

text \<open>The keyword arguments the operations pass on: \<^verbatim>\<open>headers\<close>, \<^verbatim>\<open>params\<close>, \<^verbatim>\<open>json\<close>.\<close>

record kwargs =
  kw_headers :: "(string \<times> string) list option"
  kw_params :: "dict option"
  kw_json :: "dict option"

definition no_kwargs :: kwargs where
  "no_kwargs = \<lparr>kw_headers = None, kw_params = None, kw_json = None\<rparr>"

definition failure_envelope :: "string \<Rightarrow> json" where
  "failure_envelope msg =
     JDict [(''code'', JInt 500), (''action'', JStr ''alert''), (''message'', JStr msg),
            (''data'', JNull), (''success'', JBool False)]"

definition build_request :: "string \<Rightarrow> string \<Rightarrow> string option \<Rightarrow> kwargs \<Rightarrow> request" where
  "build_request method url token kw =
     (let headers = (case kw_headers kw of None \<Rightarrow> [] | Some h \<Rightarrow> h);
          headers = (case token of
                       None \<Rightarrow> headers
                     | Some t \<Rightarrow> if t \<noteq> [] then dict_set ''Authorization'' t headers
                                else headers)
      in \<lparr>req_method = method, req_url = url, req_headers = headers,
          req_params = kw_params kw, req_json = kw_json kw\<rparr>)"

definition make_api_request ::
  "backend \<Rightarrow> request list \<Rightarrow> string \<Rightarrow> string \<Rightarrow> string option \<Rightarrow> kwargs
     \<Rightarrow> json \<times> request list" where
  "make_api_request be log method url token kw =
     (let req = build_request method url token kw
      in ((case be log req of
             Inl e \<Rightarrow> failure_envelope e
           | Inr response \<Rightarrow>
               (case raise_for_status response of
                  Inl e \<Rightarrow> failure_envelope e
                | Inr _ \<Rightarrow>
                    (case json_result response of
                       Inl e \<Rightarrow> failure_envelope e
                     | Inr body \<Rightarrow> body))),
          log @ [req]))"

section \<open>The operations\<close>

text \<open>
  Every operation takes the network and the log of requests sent so far, and returns its
  result with the extended log. An operation that can raise returns \<open>py_error + json\<close>.
\<close>

definition set_if_not_none :: "string \<Rightarrow> json option \<Rightarrow> dict \<Rightarrow> dict" where
  \<comment> \<open>\<^verbatim>\<open>if x is not None: request_data[k] = x\<close>\<close>
  "set_if_not_none k x request_data =
     (case x of None \<Rightarrow> request_data | Some v \<Rightarrow> dict_set k v request_data)"

definition json_kw :: "dict \<Rightarrow> kwargs" where
  "json_kw request_data = no_kwargs\<lparr>kw_json := Some request_data\<rparr>"

definition params_kw :: "dict \<Rightarrow> kwargs" where
  "params_kw params = no_kwargs\<lparr>kw_params := Some params\<rparr>"

subsection \<open>Token issuance\<close>

definition issue_token_result :: "json \<Rightarrow> py_error + json" where
  \<comment> \<open>lines 78 to 91: what \<^verbatim>\<open>issue_token\<close> makes of the result of its request\<close>
  "issue_token_result result =
     (case (if \<not> py_truthy result then Inr True else py_str_in ''error'' result) of
        Inl err \<Rightarrow> Inl err
      | Inr True \<Rightarrow>
          (case py_get result ''error'' (JStr ''Failed to get token'') of
             Inl err \<Rightarrow> Inl err
           | Inr e \<Rightarrow> Inr (JDict [(''success'', JBool False), (''error'', e)]))
      | Inr False \<Rightarrow>
          (case py_get result ''data'' (JDict []) of
             Inl err \<Rightarrow> Inl err
           | Inr data \<Rightarrow>
               (case py_get data ''access_token'' JNull of
                  Inl err \<Rightarrow> Inl err
                | Inr access_token \<Rightarrow>
                    (case py_get data ''expires_in'' JNull of
                       Inl err \<Rightarrow> Inl err
                     | Inr expires_in \<Rightarrow>
                         Inr (JDict [(''success'', JBool True),
                                     (''data'', JDict [(''access_token'', access_token),
                                                       (''expires_in'', expires_in)])])))))"

definition issue_token ::
  "backend \<Rightarrow> request list \<Rightarrow> string \<Rightarrow> string \<Rightarrow> (py_error + json) \<times> request list" where
  "issue_token be log access_key_id access_key_secret =
     (let request_data = [(''access_key_id'', JStr access_key_id),
                          (''access_key_secret'', JStr access_key_secret)];
          (result, log') = make_api_request be log ''POST'' ''/api/open/v1/token'' None
                             (json_kw request_data)
      in (issue_token_result result, log'))"

subsection \<open>Departments\<close>

definition department_list ::
  "backend \<Rightarrow> request list \<Rightarrow> string \<Rightarrow> string option \<Rightarrow> json \<times> request list" where
  "department_list be log token department_id =
     (let params = [];
          params = (case department_id of
                      None \<Rightarrow> params
                    | Some d \<Rightarrow> if d \<noteq> [] then dict_set ''id'' (JStr d) params else params)
      in make_api_request be log ''GET'' ''/api/open/v1/department/list'' (Some token)
           (params_kw params))"

definition department_detail ::
  "backend \<Rightarrow> request list \<Rightarrow> string \<Rightarrow> string \<Rightarrow> json \<times> request list" where
  "department_detail be log token department_id =
     (let params = [(''param'', JStr department_id)]
      in make_api_request be log ''GET'' ''/api/open/v1/department/detail'' (Some token)
           (params_kw params))"

definition department_create ::
  "backend \<Rightarrow> request list \<Rightarrow> string \<Rightarrow> string \<Rightarrow> string \<Rightarrow> int option
     \<Rightarrow> json \<times> request list" where
  "department_create be log token name parent_id order =
     (let request_data = [(''name'', JStr name), (''parent_id'', JStr parent_id)];
          request_data = set_if_not_none ''order'' (map_option JInt order) request_data
      in make_api_request be log ''POST'' ''/api/open/v1/department/create'' (Some token)
           (json_kw request_data))"

definition department_update ::
  "backend \<Rightarrow> request list \<Rightarrow> string \<Rightarrow> string \<Rightarrow> string option \<Rightarrow> int option
     \<Rightarrow> json \<times> request list" where
  "department_update be log token department_id name order =
     (let request_data = [(''id'', JStr department_id)];
          request_data = set_if_not_none ''name'' (map_option JStr name) request_data;
          request_data = set_if_not_none ''order'' (map_option JInt order) request_data
      in make_api_request be log ''POST'' ''/api/open/v1/department/update'' (Some token)
           (json_kw request_data))"

definition department_delete ::
  "backend \<Rightarrow> request list \<Rightarrow> string \<Rightarrow> string \<Rightarrow> json \<times> request list" where
  "department_delete be log token department_id =
     (let request_data = [(''id'', JStr department_id)]
      in make_api_request be log ''POST'' ''/api/open/v1/department/delete'' (Some token)
           (json_kw request_data))"

subsection \<open>Roles\<close>

definition role_list :: "backend \<Rightarrow> request list \<Rightarrow> string \<Rightarrow> json \<times> request list" where
  "role_list be log token =
     make_api_request be log ''GET'' ''/api/open/v1/role/list'' (Some token) no_kwargs"

definition role_get ::
  "backend \<Rightarrow> request list \<Rightarrow> string \<Rightarrow> string \<Rightarrow> json \<times> request list" where
  "role_get be log token role_id =
     (let params = [(''id'', JStr role_id)]
      in make_api_request be log ''GET'' ''/api/open/v1/role/get'' (Some token)
           (params_kw params))"

definition role_create ::
  "backend \<Rightarrow> request list \<Rightarrow> string \<Rightarrow> string \<Rightarrow> string option \<Rightarrow> json \<times> request list" where
  "role_create be log token name description =
     (let request_data = [(''name'', JStr name)];
          request_data = set_if_not_none ''description'' (map_option JStr description)
                           request_data
      in make_api_request be log ''POST'' ''/api/open/v1/role/create'' (Some token)
           (json_kw request_data))"

definition role_update ::
  "backend \<Rightarrow> request list \<Rightarrow> string \<Rightarrow> string \<Rightarrow> string option \<Rightarrow> string option
     \<Rightarrow> json \<times> request list" where
  "role_update be log token role_id name description =
     (let request_data = [(''id'', JStr role_id)];
          request_data = set_if_not_none ''name'' (map_option JStr name) request_data;
          request_data = set_if_not_none ''description'' (map_option JStr description)
                           request_data
      in make_api_request be log ''POST'' ''/api/open/v1/role/update'' (Some token)
           (json_kw request_data))"

definition role_delete ::
  "backend \<Rightarrow> request list \<Rightarrow> string \<Rightarrow> string \<Rightarrow> json \<times> request list" where
  "role_delete be log token role_id =
     (let request_data = [(''id'', JStr role_id)]
      in make_api_request be log ''POST'' ''/api/open/v1/role/delete'' (Some token)
           (json_kw request_data))"

definition role_member_create ::
  "backend \<Rightarrow> request list \<Rightarrow> string \<Rightarrow> string \<Rightarrow> string list \<Rightarrow> json \<times> request list" where
  "role_member_create be log token role_id user_ids =
     (let request_data = [(''role_id'', JStr role_id), (''user_ids'', JList (map JStr user_ids))]
      in make_api_request be log ''POST'' ''/api/open/v1/role/member/create'' (Some token)
           (json_kw request_data))"

definition role_member_delete ::
  "backend \<Rightarrow> request list \<Rightarrow> string \<Rightarrow> string \<Rightarrow> string list \<Rightarrow> json \<times> request list" where
  "role_member_delete be log token role_id user_ids =
     (let request_data = [(''role_id'', JStr role_id), (''user_ids'', JList (map JStr user_ids))]
      in make_api_request be log ''POST'' ''/api/open/v1/role/member/delete'' (Some token)
           (json_kw request_data))"

subsection \<open>Users\<close>

definition user_list ::
  "backend \<Rightarrow> request list \<Rightarrow> string \<Rightarrow> string \<Rightarrow> bool option \<Rightarrow> json \<times> request list" where
  "user_list be log token department_id recursive =
     (let params = [(''department_id'', JStr department_id)];
          params = (case recursive of
                      None \<Rightarrow> params
                    | Some b \<Rightarrow> dict_set ''recursive'' (JInt (if b then 1 else 0)) params)
      in make_api_request be log ''GET'' ''/api/open/v1/user/list'' (Some token)
           (params_kw params))"

definition user_get ::
  "backend \<Rightarrow> request list \<Rightarrow> string \<Rightarrow> string \<Rightarrow> json \<times> request list" where
  "user_get be log token user_id =
     (let params = [(''id'', JStr user_id)]
      in make_api_request be log ''GET'' ''/api/open/v1/user/get'' (Some token)
           (params_kw params))"

definition user_create ::
  "backend \<Rightarrow> request list \<Rightarrow> string \<Rightarrow> string \<Rightarrow> string \<Rightarrow> string \<Rightarrow> string option
     \<Rightarrow> string option \<Rightarrow> string option \<Rightarrow> int \<Rightarrow> int \<Rightarrow> json \<times> request list" where
  "user_create be log token username full_name department_id email mobile password gender status =
     (let request_data = [(''username'', JStr username), (''full_name'', JStr full_name),
                          (''department_id'', JStr department_id), (''gender'', JInt gender),
                          (''status'', JInt status)];
          request_data = set_if_not_none ''email'' (map_option JStr email) request_data;
          request_data = set_if_not_none ''mobile'' (map_option JStr mobile) request_data;
          request_data = set_if_not_none ''password'' (map_option JStr password) request_data
      in make_api_request be log ''POST'' ''/api/open/v1/user/create'' (Some token)
           (json_kw request_data))"

definition user_update ::
  "backend \<Rightarrow> request list \<Rightarrow> string \<Rightarrow> string \<Rightarrow> string option \<Rightarrow> string option
     \<Rightarrow> string option \<Rightarrow> string option \<Rightarrow> string list option \<Rightarrow> int option
     \<Rightarrow> json \<times> request list" where
  "user_update be log token user_id full_name email mobile department_id role_ids status =
     (let request_data = [(''id'', JStr user_id)];
          request_data = set_if_not_none ''full_name'' (map_option JStr full_name) request_data;
          request_data = set_if_not_none ''email'' (map_option JStr email) request_data;
          request_data = set_if_not_none ''mobile'' (map_option JStr mobile) request_data;
          request_data = set_if_not_none ''department_id'' (map_option JStr department_id)
                           request_data;
          request_data = set_if_not_none ''role_ids''
                           (map_option (\<lambda>ids. JList (map JStr ids)) role_ids) request_data;
          request_data = set_if_not_none ''status'' (map_option JInt status) request_data
      in make_api_request be log ''POST'' ''/api/open/v1/user/update'' (Some token)
           (json_kw request_data))"

definition user_set_status ::
  "backend \<Rightarrow> request list \<Rightarrow> string \<Rightarrow> string \<Rightarrow> int \<Rightarrow> json \<times> request list" where
  "user_set_status be log token user_id status =
     user_update be log token user_id None None None None None (Some status)"

text \<open>The two fixed texts of \<^verbatim>\<open>user_delete\<close>, as UTF-8 bytes.\<close>

definition offline_failed_prefix :: string where
  \<comment> \<open>the text before the interpolated message at line 572, ending in a colon and a space\<close>
  "offline_failed_prefix =
     [CHR 0xE8, CHR 0xAE, CHR 0xBE, CHR 0xE7, CHR 0xBD, CHR 0xAE, CHR 0xE7, CHR 0x94, CHR 0xA8,
      CHR 0xE6, CHR 0x88, CHR 0xB7, CHR 0xE4, CHR 0xB8, CHR 0xBA, CHR 0xE7, CHR 0xA6, CHR 0xBB,
      CHR 0xE8, CHR 0x81, CHR 0x8C, CHR 0xE7, CHR 0x8A, CHR 0xB6, CHR 0xE6, CHR 0x80, CHR 0x81,
      CHR 0xE5, CHR 0xA4, CHR 0xB1, CHR 0xE8, CHR 0xB4, CHR 0xA5, CHR 0x3A, CHR 0x20]"

definition deletion_hint :: string where
  \<comment> \<open>the text after the interpolated message at line 588: only users who have left can be
      deleted, and deletion may take a while\<close>
  "deletion_hint =
     [CHR 0xE3, CHR 0x80, CHR 0x82, CHR 0xE6, CHR 0xB3, CHR 0xA8, CHR 0xE6, CHR 0x84, CHR 0x8F,
      CHR 0x3A, CHR 0x20, CHR 0xE5, CHR 0x8F, CHR 0xAA, CHR 0xE8, CHR 0x83, CHR 0xBD, CHR 0xE5,
      CHR 0x88, CHR 0xA0, CHR 0xE9, CHR 0x99, CHR 0xA4, CHR 0xE7, CHR 0xA6, CHR 0xBB, CHR 0xE8,
      CHR 0x81, CHR 0x8C, CHR 0xE7, CHR 0x94, CHR 0xA8, CHR 0xE6, CHR 0x88, CHR 0xB7, CHR 0xEF,
      CHR 0xBC, CHR 0x8C, CHR 0xE5, CHR 0x8F, CHR 0xAF, CHR 0xE8, CHR 0x83, CHR 0xBD, CHR 0xE9,
      CHR 0x9C, CHR 0x80, CHR 0xE8, CHR 0xA6, CHR 0x81, CHR 0xE7, CHR 0xAD, CHR 0x89, CHR 0xE5,
      CHR 0xBE, CHR 0x85, CHR 0xE4, CHR 0xB8, CHR 0x80, CHR 0xE6, CHR 0xAE, CHR 0xB5, CHR 0xE6,
      CHR 0x97, CHR 0xB6, CHR 0xE9, CHR 0x97, CHR 0xB4, CHR 0xE6, CHR 0x89, CHR 0x8D, CHR 0xE8,
      CHR 0x83, CHR 0xBD, CHR 0xE5, CHR 0x88, CHR 0xA0, CHR 0xE9, CHR 0x99, CHR 0xA4, CHR 0xE3,
      CHR 0x80, CHR 0x82]"

definition annotate_delete_result :: "(json \<Rightarrow> string) \<Rightarrow> json \<Rightarrow> py_error + json" where
  \<comment> \<open>lines 587 to 590: on a code other than 0 the hint is appended to the message\<close>
  "annotate_delete_result str_of result =
     (case py_get result ''code'' JNull of
        Inl err \<Rightarrow> Inl err
      | Inr code \<Rightarrow>
          if \<not> py_eq_zero code then
            (case py_get result ''message'' (JStr []) of
               Inl err \<Rightarrow> Inl err
             | Inr m \<Rightarrow> py_setitem result ''message'' (JStr (py_str str_of m @ deletion_hint)))
          else Inr result)"

definition delete_step ::
  "(json \<Rightarrow> string) \<Rightarrow> backend \<Rightarrow> request list \<Rightarrow> string \<Rightarrow> string
     \<Rightarrow> (py_error + json) \<times> request list" where
  \<comment> \<open>lines 576 to 590, the part of \<^verbatim>\<open>user_delete\<close> after the pre-step\<close>
  "delete_step str_of be log token user_id =
     (let request_data = [(''id'', JStr user_id)];
          (result, log') = make_api_request be log ''POST'' ''/api/open/v1/user/delete''
                             (Some token) (json_kw request_data)
      in (annotate_delete_result str_of result, log'))"

definition offline_abort :: "(json \<Rightarrow> string) \<Rightarrow> json \<Rightarrow> py_error + json" where
  \<comment> \<open>lines 569 to 574, the dict returned when the pre-step failed\<close>
  "offline_abort str_of status_result =
     (case py_get status_result ''code'' (JInt 500) of
        Inl err \<Rightarrow> Inl err
      | Inr code \<Rightarrow>
          (case py_get status_result ''message'' (JStr []) of
             Inl err \<Rightarrow> Inl err
           | Inr m \<Rightarrow>
               Inr (JDict [(''code'', code), (''action'', JStr ''alert''),
                           (''message'', JStr (offline_failed_prefix @ py_str str_of m)),
                           (''data'', JNull)])))"

definition user_delete ::
  "(json \<Rightarrow> string) \<Rightarrow> backend \<Rightarrow> request list \<Rightarrow> string \<Rightarrow> string \<Rightarrow> bool
     \<Rightarrow> (py_error + json) \<times> request list" where
  "user_delete str_of be log token user_id set_offline_first =
     (if set_offline_first then
        (let (status_result, log') =
               user_update be log token user_id None None None None None (Some 3)
         in (case py_get status_result ''code'' JNull of
               Inl err \<Rightarrow> (Inl err, log')
             | Inr code \<Rightarrow>
                 if \<not> py_eq_zero code then (offline_abort str_of status_result, log')
                 else delete_step str_of be log' token user_id))
      else delete_step str_of be log token user_id)"

definition user_batch_get_id ::
  "backend \<Rightarrow> request list \<Rightarrow> string \<Rightarrow> string list \<Rightarrow> json \<times> request list" where
  "user_batch_get_id be log token usernames =
     (let request_data = [(''usernames'', JList (map JStr usernames))]
      in make_api_request be log ''POST'' ''/api/open/v1/user/batch_get_id'' (Some token)
           (json_kw request_data))"

section \<open>The tool invocation surface\<close>

text \<open>
  A call of one of the twenty registered tools, with the arguments in the order of the
  signature. An optional argument the caller leaves out is \<open>None\<close>; the call then runs with
  the default of the signature, which is \<^verbatim>\<open>None\<close> except for \<^verbatim>\<open>gender\<close> and \<^verbatim>\<open>status\<close> of
  \<^verbatim>\<open>user_create\<close> (both 1) and \<^verbatim>\<open>set_offline_first\<close> of \<^verbatim>\<open>user_delete\<close> (\<^verbatim>\<open>True\<close>).
\<close>

datatype tool_call =
    IssueToken string string
  | DepartmentList string "string option"
  | DepartmentDetail string string
  | DepartmentCreate string string string "int option"
  | DepartmentUpdate string string "string option" "int option"
  | DepartmentDelete string string
  | RoleList string
  | RoleGet string string
  | RoleCreate string string "string option"
  | RoleUpdate string string "string option" "string option"
  | RoleDelete string string
  | RoleMemberCreate string string "string list"
  | RoleMemberDelete string string "string list"
  | UserList string string "bool option"
  | UserGet string string
  | UserCreate string string string string "string option" "string option" "string option"
      "int option" "int option"
  | UserSetStatus string string int
  | UserUpdate string string "string option" "string option" "string option" "string option"
      "string list option" "int option"
  | UserDelete string string "bool option"
  | UserBatchGetId string "string list"

definition or_default :: "'a option \<Rightarrow> 'a \<Rightarrow> 'a" where
  "or_default x d = (case x of None \<Rightarrow> d | Some v \<Rightarrow> v)"

definition returns :: "json \<times> request list \<Rightarrow> (py_error + json) \<times> request list" where
  "returns r = (Inr (fst r), snd r)"

fun call_tool ::
  "(json \<Rightarrow> string) \<Rightarrow> backend \<Rightarrow> request list \<Rightarrow> tool_call
     \<Rightarrow> (py_error + json) \<times> request list" where
  "call_tool str_of be log (IssueToken k s) = issue_token be log k s"
| "call_tool str_of be log (DepartmentList t d) = returns (department_list be log t d)"
| "call_tool str_of be log (DepartmentDetail t d) = returns (department_detail be log t d)"
| "call_tool str_of be log (DepartmentCreate t n p ord) =
     returns (department_create be log t n p ord)"
| "call_tool str_of be log (DepartmentUpdate t d n ord) =
     returns (department_update be log t d n ord)"
| "call_tool str_of be log (DepartmentDelete t d) = returns (department_delete be log t d)"
| "call_tool str_of be log (RoleList t) = returns (role_list be log t)"
| "call_tool str_of be log (RoleGet t r) = returns (role_get be log t r)"
| "call_tool str_of be log (RoleCreate t n d) = returns (role_create be log t n d)"
| "call_tool str_of be log (RoleUpdate t r n d) = returns (role_update be log t r n d)"
| "call_tool str_of be log (RoleDelete t r) = returns (role_delete be log t r)"
| "call_tool str_of be log (RoleMemberCreate t r us) =
     returns (role_member_create be log t r us)"
| "call_tool str_of be log (RoleMemberDelete t r us) =
     returns (role_member_delete be log t r us)"
| "call_tool str_of be log (UserList t d r) = returns (user_list be log t d r)"
| "call_tool str_of be log (UserGet t u) = returns (user_get be log t u)"
| "call_tool str_of be log (UserCreate t un fn d em mo pw g st) =
     returns (user_create be log t un fn d em mo pw (or_default g 1) (or_default st 1))"
| "call_tool str_of be log (UserSetStatus t u st) = returns (user_set_status be log t u st)"
| "call_tool str_of be log (UserUpdate t u fn em mo d rs st) =
     returns (user_update be log t u fn em mo d rs st)"
| "call_tool str_of be log (UserDelete t u so) =
     user_delete str_of be log t u (or_default so True)"
| "call_tool str_of be log (UserBatchGetId t us) = returns (user_batch_get_id be log t us)"

text \<open>The requests a call sends, and the payload of a request (its JSON body or its query).\<close>

definition sent ::
  "(json \<Rightarrow> string) \<Rightarrow> backend \<Rightarrow> request list \<Rightarrow> tool_call \<Rightarrow> request list" where
  "sent str_of be log call = drop (length log) (snd (call_tool str_of be log call))"

definition payload :: "request \<Rightarrow> dict" where
  "payload r =
     (case req_json r of
        Some d \<Rightarrow> d
      | None \<Rightarrow> (case req_params r of Some p \<Rightarrow> p | None \<Rightarrow> []))"

definition payload_keys :: "request \<Rightarrow> string list" where
  "payload_keys r = map fst (payload r)"

text \<open>
  The specification's side of the payload properties. \<open>optionals_unset\<close> holds of a call
  that supplies the required arguments only. \<open>required_keys\<close> lists the payload key of each
  required argument other than the token (which travels in a header), in the order of the
  signature.
\<close>

fun optionals_unset :: "tool_call \<Rightarrow> bool" where
  "optionals_unset (DepartmentList t d) = (d = None)"
| "optionals_unset (DepartmentCreate t n p ord) = (ord = None)"
| "optionals_unset (DepartmentUpdate t d n ord) = (n = None \<and> ord = None)"
| "optionals_unset (RoleCreate t n d) = (d = None)"
| "optionals_unset (RoleUpdate t r n d) = (n = None \<and> d = None)"
| "optionals_unset (UserList t d r) = (r = None)"
| "optionals_unset (UserCreate t un fn d em mo pw g st) =
     (em = None \<and> mo = None \<and> pw = None \<and> g = None \<and> st = None)"
| "optionals_unset (UserUpdate t u fn em mo d rs st) =
     (fn = None \<and> em = None \<and> mo = None \<and> d = None \<and> rs = None \<and> st = None)"
| "optionals_unset (UserDelete t u so) = (so = None)"
| "optionals_unset _ = True"

fun required_keys :: "tool_call \<Rightarrow> string list" where
  "required_keys (IssueToken k s) = [''access_key_id'', ''access_key_secret'']"
| "required_keys (DepartmentList t d) = []"
| "required_keys (DepartmentDetail t d) = [''param'']"
| "required_keys (DepartmentCreate t n p ord) = [''name'', ''parent_id'']"
| "required_keys (DepartmentUpdate t d n ord) = [''id'']"
| "required_keys (DepartmentDelete t d) = [''id'']"
| "required_keys (RoleList t) = []"
| "required_keys (RoleGet t r) = [''id'']"
| "required_keys (RoleCreate t n d) = [''name'']"
| "required_keys (RoleUpdate t r n d) = [''id'']"
| "required_keys (RoleDelete t r) = [''id'']"
| "required_keys (RoleMemberCreate t r us) = [''role_id'', ''user_ids'']"
| "required_keys (RoleMemberDelete t r us) = [''role_id'', ''user_ids'']"
| "required_keys (UserList t d r) = [''department_id'']"
| "required_keys (UserGet t u) = [''id'']"
| "required_keys (UserCreate t un fn d em mo pw g st) =
     [''username'', ''full_name'', ''department_id'']"
| "required_keys (UserSetStatus t u st) = [''id'', ''status'']"
| "required_keys (UserUpdate t u fn em mo d rs st) = [''id'']"
| "required_keys (UserDelete t u so) = [''id'']"
| "required_keys (UserBatchGetId t us) = [''usernames'']"

text \<open>
  The value bound to a key in each payload a call sends, and the test whether a text ends
  with another.
\<close>

definition sent_values ::
  "(json \<Rightarrow> string) \<Rightarrow> backend \<Rightarrow> request list \<Rightarrow> tool_call \<Rightarrow> string \<Rightarrow> json option list"
  where
  "sent_values str_of be log call k = map (\<lambda>r. map_of (payload r) k) (sent str_of be log call)"

definition ends_with :: "'a list \<Rightarrow> 'a list \<Rightarrow> bool" where
  "ends_with s t = (length t \<le> length s \<and> drop (length s - length t) s = t)"

section \<open>Sample networks\<close>

text \<open>
  Networks for the concrete evaluations below: one that is down, and one that answers the
  n-th request with the n-th entry of a script. \<open>plain_str\<close> fills the parameter \<open>str_of\<close>
  there; no evaluation interpolates a float, a list or a dict.
\<close>

definition always_raises :: "string \<Rightarrow> backend" where
  "always_raises e log req = Inl e"

definition scripted :: "(string + response) list \<Rightarrow> backend" where
  "scripted replies log req =
     (if length log < length replies then replies ! length log
      else Inl ''connection refused'')"

definition ok_response :: "json \<Rightarrow> response" where
  "ok_response body = \<lparr>status_code = 200, status_error = [], json_result = Inr body\<rparr>"

definition plain_str :: "json \<Rightarrow> string" where
  "plain_str v = ''<object>''"

section \<open>Expected requests\<close>

text \<open>
  The token a call carries (\<^verbatim>\<open>issue_token\<close> has none), and the two requests of
  \<^verbatim>\<open>user_delete\<close> written out: the status update to 3 (left the company) and the deletion.
\<close>

fun token_of :: "tool_call \<Rightarrow> string option" where
  "token_of (IssueToken k s) = None"
| "token_of (DepartmentList t d) = Some t"
| "token_of (DepartmentDetail t d) = Some t"
| "token_of (DepartmentCreate t n p ord) = Some t"
| "token_of (DepartmentUpdate t d n ord) = Some t"
| "token_of (DepartmentDelete t d) = Some t"
| "token_of (RoleList t) = Some t"
| "token_of (RoleGet t r) = Some t"
| "token_of (RoleCreate t n d) = Some t"
| "token_of (RoleUpdate t r n d) = Some t"
| "token_of (RoleDelete t r) = Some t"
| "token_of (RoleMemberCreate t r us) = Some t"
| "token_of (RoleMemberDelete t r us) = Some t"
| "token_of (UserList t d r) = Some t"
| "token_of (UserGet t u) = Some t"
| "token_of (UserCreate t un fn d em mo pw g st) = Some t"
| "token_of (UserSetStatus t u st) = Some t"
| "token_of (UserUpdate t u fn em mo d rs st) = Some t"
| "token_of (UserDelete t u so) = Some t"
| "token_of (UserBatchGetId t us) = Some t"

definition offline_request :: "string \<Rightarrow> string \<Rightarrow> request" where
  "offline_request token user_id =
     \<lparr>req_method = ''POST'', req_url = ''/api/open/v1/user/update'',
      req_headers = (if token \<noteq> [] then [(''Authorization'', token)] else []),
      req_params = None,
      req_json = Some [(''id'', JStr user_id), (''status'', JInt 3)]\<rparr>"

definition delete_request :: "string \<Rightarrow> string \<Rightarrow> request" where
  "delete_request token user_id =
     \<lparr>req_method = ''POST'', req_url = ''/api/open/v1/user/delete'',
      req_headers = (if token \<noteq> [] then [(''Authorization'', token)] else []),
      req_params = None,
      req_json = Some [(''id'', JStr user_id)]\<rparr>"

text \<open>
  The status setter as the specification words it: the general user update, restricted to
  the one field \<^verbatim>\<open>status\<close>.
\<close>

definition status_only_update ::
  "backend \<Rightarrow> request list \<Rightarrow> string \<Rightarrow> string \<Rightarrow> int \<Rightarrow> json \<times> request list" where
  "status_only_update be log token user_id status =
     make_api_request be log ''POST'' ''/api/open/v1/user/update'' (Some token)
       (json_kw [(''id'', JStr user_id), (''status'', JInt status)])"

text \<open>Reading a returned value: its keys, and the value under one of them.\<close>

fun result_keys :: "py_error + json \<Rightarrow> string list" where
  "result_keys (Inr (JDict d)) = map fst d"
| "result_keys _ = []"

fun result_field :: "py_error + json \<Rightarrow> string \<Rightarrow> json option" where
  "result_field (Inr (JDict d)) k = map_of d k"
| "result_field _ k = None"

section \<open>Auxiliary facts\<close>

lemma make_api_request_log:
  "snd (make_api_request be log method url token kw) = log @ [build_request method url token kw]"
  by (simp add: make_api_request_def Let_def)

lemma make_api_request_result:
  "fst (make_api_request be log method url token kw) =
     (case be log (build_request method url token kw) of
        Inl e \<Rightarrow> failure_envelope e
      | Inr r \<Rightarrow>
          if 200 \<le> status_code r \<and> status_code r < 300
          then (case json_result r of Inl e \<Rightarrow> failure_envelope e | Inr body \<Rightarrow> body)
          else failure_envelope (status_error r))"
  by (simp add: make_api_request_def Let_def raise_for_status_def split: sum.splits)

lemma map_of_dict_set_same: "map_of (dict_set k v d) k = Some v"
  by (induction d) auto

lemma req_headers_build_request:
  "req_headers (build_request method url token kw) =
     (case token of
        None \<Rightarrow> or_default (kw_headers kw) []
      | Some t \<Rightarrow> if t \<noteq> [] then dict_set ''Authorization'' t (or_default (kw_headers kw) [])
                  else or_default (kw_headers kw) [])"
  by (simp add: build_request_def Let_def or_default_def split: option.splits)

lemma payload_build_request:
  "payload (build_request method url token (json_kw d)) = d"
  "payload (build_request method url token (params_kw p)) = p"
  "payload (build_request method url token no_kwargs) = []"
  by (simp_all add: payload_def build_request_def json_kw_def params_kw_def no_kwargs_def Let_def)

lemma kw_headers_simps:
  "kw_headers (json_kw d) = None" "kw_headers (params_kw p) = None" "kw_headers no_kwargs = None"
  by (simp_all add: json_kw_def params_kw_def no_kwargs_def)

lemma sent_returns:
  "drop (length log) (snd (returns (make_api_request be log method url token kw))) =
     [build_request method url token kw]"
  by (simp add: returns_def make_api_request_log)

lemmas op_defs =
  department_list_def department_detail_def department_create_def department_update_def
  department_delete_def role_list_def role_get_def role_create_def role_update_def
  role_delete_def role_member_create_def role_member_delete_def user_list_def user_get_def
  user_create_def user_set_status_def user_update_def user_batch_get_id_def

lemma build_offline_request:
  "build_request ''POST'' ''/api/open/v1/user/update'' (Some t)
     (json_kw [(''id'', JStr u), (''status'', JInt 3)]) = offline_request t u"
  by (simp add: build_request_def offline_request_def json_kw_def no_kwargs_def)

lemma build_delete_request:
  "build_request ''POST'' ''/api/open/v1/user/delete'' (Some t)
     (json_kw [(''id'', JStr u)]) = delete_request t u"
  by (simp add: build_request_def delete_request_def json_kw_def no_kwargs_def)

lemma user_update_offline:
  "user_update be log t u None None None None None (Some 3) =
     make_api_request be log ''POST'' ''/api/open/v1/user/update'' (Some t)
       (json_kw [(''id'', JStr u), (''status'', JInt 3)])"
  by (simp add: user_update_def set_if_not_none_def)

lemma snd_user_update_offline:
  "snd (user_update be log t u None None None None None (Some 3)) = log @ [offline_request t u]"
  by (simp add: user_update_offline make_api_request_log build_offline_request)

lemma snd_delete_step:
  "snd (delete_step str_of be log t u) = log @ [delete_request t u]"
  by (simp add: delete_step_def Let_def split_beta make_api_request_log build_delete_request)

lemma fst_delete_step:
  "fst (delete_step str_of be log t u) =
     annotate_delete_result str_of
       (fst (make_api_request be log ''POST'' ''/api/open/v1/user/delete'' (Some t)
          (json_kw [(''id'', JStr u)])))"
  by (simp add: delete_step_def Let_def split_beta)

lemma sent_user_delete:
  "sent str_of be log (UserDelete t u so) =
     (if or_default so True then
        (case py_get (fst (user_update be log t u None None None None None (Some 3)))
                ''code'' JNull of
           Inl err \<Rightarrow> [offline_request t u]
         | Inr code \<Rightarrow> if py_eq_zero code then [offline_request t u, delete_request t u]
                        else [offline_request t u])
      else [delete_request t u])"
  by (simp add: sent_def user_delete_def split_beta snd_delete_step snd_user_update_offline
      split: sum.splits)

lemma map_of_dict_set: "map_of (dict_set k v d) = (map_of d)(k \<mapsto> v)"
  by (induction d) (auto simp: fun_eq_iff)

lemma make_api_request_down:
  "\<forall>l r. be l r = Inl e \<Longrightarrow>
     fst (make_api_request be log meth url token kw) = failure_envelope e"
  by (simp add: make_api_request_result)

lemma payload_keys_requests:
  "payload_keys (offline_request t u) = [''id'', ''status'']"
  "payload_keys (delete_request t u) = [''id'']"
  "map_of (payload (offline_request t u)) ''status'' = Some (JInt 3)"
  by (simp_all add: payload_keys_def payload_def offline_request_def delete_request_def)

lemma map_of_set_if_not_none:
  "map_of (set_if_not_none k x d) k' =
     (if k' = k then (case x of None \<Rightarrow> map_of d k' | Some v \<Rightarrow> Some v) else map_of d k')"
  by (simp add: set_if_not_none_def map_of_dict_set split: option.splits)

lemma payload_requests:
  "payload (offline_request t u) = [(''id'', JStr u), (''status'', JInt 3)]"
  "payload (delete_request t u) = [(''id'', JStr u)]"
  by (simp_all add: payload_def offline_request_def delete_request_def)

section \<open>The response normalizer\<close>

text \<open>
  Claim C2. Whenever the request of \<^verbatim>\<open>make_api_request\<close> raises an exception \<open>e\<close>, be it
  raised by the transport (timeout, TLS), by \<^verbatim>\<open>raise_for_status\<close> on a status outside
  200..299 or by the JSON decoder, the value returned is exactly the dict with \<^verbatim>\<open>code\<close> 500,
  \<^verbatim>\<open>action\<close> \<^verbatim>\<open>"alert"\<close>, \<^verbatim>\<open>message\<close> \<^verbatim>\<open>str(e)\<close>, \<^verbatim>\<open>data\<close> \<^verbatim>\<open>None\<close> and \<^verbatim>\<open>success\<close> \<^verbatim>\<open>False\<close>; on
  a 2xx response whose body decodes, the parsed body is returned unchanged.
\<close>

theorem make_api_request_normalizes:
  "(be log (build_request meth url token kw) = Inl e \<longrightarrow>
      fst (make_api_request be log meth url token kw) =
        JDict [(''code'', JInt 500), (''action'', JStr ''alert''), (''message'', JStr e),
               (''data'', JNull), (''success'', JBool False)]) \<and>
   (be log (build_request meth url token kw) = Inr r \<and>
    \<not> (200 \<le> status_code r \<and> status_code r < 300) \<longrightarrow>
      fst (make_api_request be log meth url token kw) =
        JDict [(''code'', JInt 500), (''action'', JStr ''alert''),
               (''message'', JStr (status_error r)), (''data'', JNull),
               (''success'', JBool False)]) \<and>
   (be log (build_request meth url token kw) = Inr r \<and>
    200 \<le> status_code r \<and> status_code r < 300 \<and> json_result r = Inl e \<longrightarrow>
      fst (make_api_request be log meth url token kw) =
        JDict [(''code'', JInt 500), (''action'', JStr ''alert''), (''message'', JStr e),
               (''data'', JNull), (''success'', JBool False)]) \<and>
   (be log (build_request meth url token kw) = Inr r \<and>
    200 \<le> status_code r \<and> status_code r < 300 \<and> json_result r = Inr body \<longrightarrow>
      fst (make_api_request be log meth url token kw) = body)"
  by (simp add: make_api_request_result failure_envelope_def)

theorem make_api_request_normalizes_witness:
  "fst (make_api_request (always_raises ''timed out'') [] ''GET'' ''/api/open/v1/role/list''
          (Some ''tok'') no_kwargs) =
     JDict [(''code'', JInt 500), (''action'', JStr ''alert''), (''message'', JStr ''timed out''),
            (''data'', JNull), (''success'', JBool False)] \<and>
   fst (make_api_request
          (scripted [Inr \<lparr>status_code = 404, status_error = ''Client error 404'',
                          json_result = Inr (JDict [(''code'', JInt 0)])\<rparr>])
          [] ''GET'' ''/api/open/v1/role/list'' (Some ''tok'') no_kwargs) =
     JDict [(''code'', JInt 500), (''action'', JStr ''alert''),
            (''message'', JStr ''Client error 404''), (''data'', JNull),
            (''success'', JBool False)] \<and>
   fst (make_api_request
          (scripted [Inr \<lparr>status_code = 200, status_error = [],
                          json_result = Inl ''Expecting value''\<rparr>])
          [] ''GET'' ''/api/open/v1/role/list'' (Some ''tok'') no_kwargs) =
     JDict [(''code'', JInt 500), (''action'', JStr ''alert''),
            (''message'', JStr ''Expecting value''), (''data'', JNull),
            (''success'', JBool False)] \<and>
   fst (make_api_request
          (scripted [Inr (ok_response (JDict [(''code'', JInt 0), (''data'', JList [])]))])
          [] ''GET'' ''/api/open/v1/role/list'' (Some ''tok'') no_kwargs) =
     JDict [(''code'', JInt 0), (''data'', JList [])]"
  using
    make_api_request_normalizes [where be = "always_raises ''timed out''" and log = "[]"
      and meth = "''GET''" and url = "''/api/open/v1/role/list''" and token = "Some ''tok''"
      and kw = no_kwargs and e = "''timed out''"]
    make_api_request_normalizes [where
      be = "scripted [Inr \<lparr>status_code = 404, status_error = ''Client error 404'',
                          json_result = Inr (JDict [(''code'', JInt 0)])\<rparr>]"
      and log = "[]" and meth = "''GET''" and url = "''/api/open/v1/role/list''"
      and token = "Some ''tok''" and kw = no_kwargs
      and r = "\<lparr>status_code = 404, status_error = ''Client error 404'',
                 json_result = Inr (JDict [(''code'', JInt 0)])\<rparr>"]
    make_api_request_normalizes [where
      be = "scripted [Inr \<lparr>status_code = 200, status_error = [],
                          json_result = Inl ''Expecting value''\<rparr>]"
      and log = "[]" and meth = "''GET''" and url = "''/api/open/v1/role/list''"
      and token = "Some ''tok''" and kw = no_kwargs and e = "''Expecting value''"
      and r = "\<lparr>status_code = 200, status_error = [], json_result = Inl ''Expecting value''\<rparr>"]
    make_api_request_normalizes [where
      be = "scripted [Inr (ok_response (JDict [(''code'', JInt 0), (''data'', JList [])]))]"
      and log = "[]" and meth = "''GET''" and url = "''/api/open/v1/role/list''"
      and token = "Some ''tok''" and kw = no_kwargs
      and r = "ok_response (JDict [(''code'', JInt 0), (''data'', JList [])])"
      and body = "JDict [(''code'', JInt 0), (''data'', JList [])]"]
  by (simp add: always_raises_def scripted_def ok_response_def)

section \<open>The Authorization header\<close>

text \<open>
  Claim C7. For every non-empty token passed to \<^verbatim>\<open>make_api_request\<close>, the request it sends
  has the token itself, with no scheme prefix, as the value of its \<^verbatim>\<open>Authorization\<close> header;
  without a token (or with an empty one) the function sets no such header and the headers
  are the caller's, which are empty at every call in the program. So every request of a
  token-taking operation carries exactly that header, and that of \<^verbatim>\<open>issue_token\<close> none.
\<close>

theorem authorization_header_verbatim:
  "snd (make_api_request be log meth url token kw) =
     log @ [build_request meth url token kw] \<and>
   (t \<noteq> [] \<longrightarrow>
      map_of (req_headers (build_request meth url (Some t) kw)) ''Authorization'' = Some t) \<and>
   (t \<noteq> [] \<and> kw_headers kw = None \<longrightarrow>
      req_headers (build_request meth url (Some t) kw) = [(''Authorization'', t)]) \<and>
   req_headers (build_request meth url None kw) = or_default (kw_headers kw) [] \<and>
   req_headers (build_request meth url (Some []) kw) = or_default (kw_headers kw) [] \<and>
   sent str_of be log call \<noteq> [] \<and>
   (\<forall>r \<in> set (sent str_of be log call).
      req_headers r =
        (case token_of call of
           None \<Rightarrow> []
         | Some t' \<Rightarrow> if t' \<noteq> [] then [(''Authorization'', t')] else []))"
proof -
  have ops: "sent str_of be log call \<noteq> [] \<and>
    (\<forall>r \<in> set (sent str_of be log call).
      req_headers r =
        (case token_of call of
           None \<Rightarrow> []
         | Some t' \<Rightarrow> if t' \<noteq> [] then [(''Authorization'', t')] else []))"
  proof (cases call)
    case (IssueToken k s)
    then show ?thesis
      by (simp add: sent_def issue_token_def split_beta Let_def make_api_request_log
          req_headers_build_request kw_headers_simps or_default_def)
  next
    case (UserDelete t u so)
    then show ?thesis
      by (simp add: sent_user_delete offline_request_def delete_request_def split: sum.splits)
  qed (simp_all add: sent_def sent_returns op_defs Let_def req_headers_build_request
      kw_headers_simps or_default_def)
  show ?thesis
    using ops by (simp add: make_api_request_log req_headers_build_request map_of_dict_set_same
        or_default_def)
qed

theorem authorization_header_verbatim_witness:
  "''tok-1'' \<noteq> [] \<and> kw_headers no_kwargs = None \<and>
   map_of (req_headers (build_request ''GET'' ''/api/open/v1/role/list'' (Some ''tok-1'')
                          no_kwargs)) ''Authorization'' = Some ''tok-1'' \<and>
   req_headers (build_request ''GET'' ''/api/open/v1/role/list'' (Some ''tok-1'') no_kwargs) =
     [(''Authorization'', ''tok-1'')] \<and>
   sent plain_str (always_raises ''down'') [] (RoleList ''tok-1'') =
     [\<lparr>req_method = ''GET'', req_url = ''/api/open/v1/role/list'',
       req_headers = [(''Authorization'', ''tok-1'')], req_params = None, req_json = None\<rparr>]"
  using authorization_header_verbatim [where t = "''tok-1''" and kw = no_kwargs
      and meth = "''GET''" and url = "''/api/open/v1/role/list''" and str_of = plain_str
      and be = "always_raises ''down''" and log = "[]" and call = "RoleList ''tok-1''"
      and token = "Some ''tok-1''"]
  by (simp add: sent_def returns_def role_list_def make_api_request_log build_request_def
      no_kwargs_def)

section \<open>Query flags and the status setter\<close>

text \<open>
  Claim C6. In \<^verbatim>\<open>user_list\<close> the flag \<^verbatim>\<open>recursive\<close> is serialized as follows, at every call:
  \<^verbatim>\<open>True\<close> gives the query key \<^verbatim>\<open>recursive\<close> the value 1, \<^verbatim>\<open>False\<close> the value 0, and
  \<^verbatim>\<open>None\<close> (unset) leaves the key out of the query. The request is a query to
  \<^verbatim>\<open>/api/open/v1/user/list\<close> with no JSON body.
\<close>

theorem user_list_recursive_flag:
  "map req_params (sent str_of be log (UserList token department_id (Some True))) =
     [Some [(''department_id'', JStr department_id), (''recursive'', JInt 1)]] \<and>
   map req_params (sent str_of be log (UserList token department_id (Some False))) =
     [Some [(''department_id'', JStr department_id), (''recursive'', JInt 0)]] \<and>
   map req_params (sent str_of be log (UserList token department_id None)) =
     [Some [(''department_id'', JStr department_id)]] \<and>
   sent_values str_of be log (UserList token department_id None) ''recursive'' = [None] \<and>
   map req_json (sent str_of be log (UserList token department_id recursive)) = [None] \<and>
   map req_url (sent str_of be log (UserList token department_id recursive)) =
     [''/api/open/v1/user/list'']"
  by (simp add: sent_values_def sent_def sent_returns user_list_def payload_def
      build_request_def params_kw_def no_kwargs_def Let_def)

text \<open>
  Claim C8. For every token, user id and status, \<^verbatim>\<open>user_set_status\<close> returns what
  \<^verbatim>\<open>user_update\<close> returns when only \<^verbatim>\<open>status\<close> is given (and sends the same request): it is
  the general update restricted to the status field, \<open>status_only_update\<close>.
\<close>

theorem user_set_status_is_restricted_update:
  "user_set_status be log token user_id status =
     user_update be log token user_id None None None None None (Some status) \<and>
   user_set_status be log token user_id status =
     status_only_update be log token user_id status \<and>
   call_tool str_of be log (UserSetStatus token user_id status) =
     call_tool str_of be log (UserUpdate token user_id None None None None None (Some status))"
  by (simp add: user_set_status_def user_update_def status_only_update_def set_if_not_none_def)

section \<open>User deletion\<close>

text \<open>
  Claim C9. When \<^verbatim>\<open>user_delete\<close> aborts because the pre-step returned a dict whose \<^verbatim>\<open>code\<close>
  is not 0, the dict it returns has exactly the keys \<^verbatim>\<open>code\<close>, \<^verbatim>\<open>action\<close>, \<^verbatim>\<open>message\<close>,
  \<^verbatim>\<open>data\<close>: the action is \<^verbatim>\<open>"alert"\<close>, the data \<^verbatim>\<open>None\<close>, the code that of the pre-step result,
  or 500 when it has none. It has no key \<^verbatim>\<open>success\<close>, which the failure envelope of
  \<^verbatim>\<open>make_api_request\<close> has.
\<close>

theorem user_delete_abort_envelope:
  assumes "or_default set_offline_first True"
    and "fst (user_update be log token user_id None None None None None (Some 3)) = JDict d"
    and "\<not> py_eq_zero (dict_get d ''code'' JNull)"
  shows "fst (call_tool str_of be log (UserDelete token user_id set_offline_first)) =
           Inr (JDict [(''code'', dict_get d ''code'' (JInt 500)), (''action'', JStr ''alert''),
                       (''message'', JStr (offline_failed_prefix
                                             @ py_str str_of (dict_get d ''message'' (JStr [])))),
                       (''data'', JNull)]) \<and>
         result_keys (fst (call_tool str_of be log (UserDelete token user_id set_offline_first))) =
           [''code'', ''action'', ''message'', ''data''] \<and>
         result_field (fst (call_tool str_of be log (UserDelete token user_id set_offline_first)))
           ''success'' = None \<and>
         result_keys (Inr (failure_envelope e)) =
           [''code'', ''action'', ''message'', ''data'', ''success'']"
  using assms
  by (simp add: user_delete_def split_beta offline_abort_def failure_envelope_def)

theorem user_delete_abort_envelope_witness:
  "or_default None True \<and>
   fst (user_update
          (scripted [Inr (ok_response (JDict [(''code'', JInt 403),
                                              (''message'', JStr ''forbidden'')]))])
          [] ''tok'' ''u1'' None None None None None (Some 3)) =
     JDict [(''code'', JInt 403), (''message'', JStr ''forbidden'')] \<and>
   \<not> py_eq_zero (dict_get [(''code'', JInt 403), (''message'', JStr ''forbidden'')] ''code'' JNull) \<and>
   fst (call_tool plain_str
          (scripted [Inr (ok_response (JDict [(''code'', JInt 403),
                                              (''message'', JStr ''forbidden'')]))])
          [] (UserDelete ''tok'' ''u1'' None)) =
     Inr (JDict [(''code'', JInt 403), (''action'', JStr ''alert''),
                 (''message'', JStr (offline_failed_prefix @ ''forbidden'')),
                 (''data'', JNull)]) \<and>
   result_field
     (fst (call_tool plain_str
             (scripted [Inr (ok_response (JDict [(''code'', JInt 403),
                                                 (''message'', JStr ''forbidden'')]))])
             [] (UserDelete ''tok'' ''u1'' None))) ''success'' = None"
proof -
  have h1: "or_default None True"
    by (simp add: or_default_def)
  have h2: "fst (user_update
          (scripted [Inr (ok_response (JDict [(''code'', JInt 403),
                                              (''message'', JStr ''forbidden'')]))])
          [] ''tok'' ''u1'' None None None None None (Some 3)) =
     JDict [(''code'', JInt 403), (''message'', JStr ''forbidden'')]"
    by (simp add: user_update_offline make_api_request_result scripted_def ok_response_def)
  have h3: "\<not> py_eq_zero (dict_get [(''code'', JInt 403), (''message'', JStr ''forbidden'')]
                             ''code'' JNull)"
    by (simp add: dict_get_def)
  show ?thesis
    using h1 h2 h3 user_delete_abort_envelope [OF h1 h2 h3, where str_of = plain_str]
    by (simp add: dict_get_def)
qed

text \<open>
  Claim C10. With \<^verbatim>\<open>set_offline_first=False\<close> the pre-step is skipped: \<^verbatim>\<open>user_delete\<close> sends
  exactly one request, the POST to \<^verbatim>\<open>/api/open/v1/user/delete\<close> with body \<^verbatim>\<open>{id: user_id}\<close>,
  and no update request. The annotation of the result applies as usual: on a code other
  than 0 the hint is appended to the message, on code 0 the result is returned as it is.
\<close>

theorem user_delete_without_prestep:
  "sent str_of be log (UserDelete token user_id (Some False)) =
     [\<lparr>req_method = ''POST'', req_url = ''/api/open/v1/user/delete'',
       req_headers = (if token \<noteq> [] then [(''Authorization'', token)] else []),
       req_params = None, req_json = Some [(''id'', JStr user_id)]\<rparr>] \<and>
   (fst (make_api_request be log ''POST'' ''/api/open/v1/user/delete'' (Some token)
           (json_kw [(''id'', JStr user_id)])) = JDict r \<longrightarrow>
      fst (call_tool str_of be log (UserDelete token user_id (Some False))) =
        Inr (JDict (if py_eq_zero (dict_get r ''code'' JNull) then r
                    else dict_set ''message''
                           (JStr (py_str str_of (dict_get r ''message'' (JStr []))
                                  @ deletion_hint)) r)))"
  by (simp add: sent_user_delete or_default_def delete_request_def user_delete_def
      fst_delete_step annotate_delete_result_def)

theorem user_delete_without_prestep_witness:
  "fst (make_api_request
          (scripted [Inr (ok_response (JDict [(''code'', JInt 1001),
                                              (''message'', JStr ''still active'')]))])
          [] ''POST'' ''/api/open/v1/user/delete'' (Some ''tok'')
          (json_kw [(''id'', JStr ''u1'')])) =
     JDict [(''code'', JInt 1001), (''message'', JStr ''still active'')] \<and>
   fst (call_tool plain_str
          (scripted [Inr (ok_response (JDict [(''code'', JInt 1001),
                                              (''message'', JStr ''still active'')]))])
          [] (UserDelete ''tok'' ''u1'' (Some False))) =
     Inr (JDict [(''code'', JInt 1001),
                 (''message'', JStr (''still active'' @ deletion_hint))])"
proof -
  have h: "fst (make_api_request
          (scripted [Inr (ok_response (JDict [(''code'', JInt 1001),
                                              (''message'', JStr ''still active'')]))])
          [] ''POST'' ''/api/open/v1/user/delete'' (Some ''tok'')
          (json_kw [(''id'', JStr ''u1'')])) =
     JDict [(''code'', JInt 1001), (''message'', JStr ''still active'')]"
    by (simp add: make_api_request_result scripted_def ok_response_def)
  show ?thesis
    using h user_delete_without_prestep [where str_of = plain_str and log = "[]"
        and token = "''tok''" and user_id = "''u1''"
        and r = "[(''code'', JInt 1001), (''message'', JStr ''still active'')]"
        and be = "scripted [Inr (ok_response (JDict [(''code'', JInt 1001),
                                              (''message'', JStr ''still active'')]))]"]
    by (simp add: dict_get_def)
qed

text \<open>
  Claim C3 as stated fails: it has the hint appended to the message whenever the update
  returned code 0. Here both the update and the deletion answer with code 0; the deletion
  is sent, and the message returned is the backend's own, without the hint.
\<close>

theorem user_delete_hint_counterexample:
  "fst (user_update
          (scripted [Inr (ok_response (JDict [(''code'', JInt 0), (''message'', JStr ''ok'')])),
                     Inr (ok_response (JDict [(''code'', JInt 0),
                                              (''message'', JStr ''deleted'')]))])
          [] ''tok'' ''u1'' None None None None None (Some 3)) =
     JDict [(''code'', JInt 0), (''message'', JStr ''ok'')] \<and>
   sent plain_str
     (scripted [Inr (ok_response (JDict [(''code'', JInt 0), (''message'', JStr ''ok'')])),
                Inr (ok_response (JDict [(''code'', JInt 0), (''message'', JStr ''deleted'')]))])
     [] (UserDelete ''tok'' ''u1'' None) =
     [offline_request ''tok'' ''u1'', delete_request ''tok'' ''u1''] \<and>
   result_field
     (fst (call_tool plain_str
             (scripted [Inr (ok_response (JDict [(''code'', JInt 0), (''message'', JStr ''ok'')])),
                        Inr (ok_response (JDict [(''code'', JInt 0),
                                                 (''message'', JStr ''deleted'')]))])
             [] (UserDelete ''tok'' ''u1'' None))) ''message'' = Some (JStr ''deleted'') \<and>
   \<not> ends_with ''deleted'' deletion_hint"
  by (simp add: sent_user_delete user_delete_def split_beta or_default_def user_update_offline
      make_api_request_result make_api_request_log fst_delete_step annotate_delete_result_def
      scripted_def ok_response_def dict_get_def ends_with_def deletion_hint_def)

text \<open>
  Claim C3, amended. With \<^verbatim>\<open>set_offline_first\<close> at its default, when the status update
  returns a dict: if its code equals 0, the delete request is sent after the update, and
  the result is that of the deletion, with the hint appended to its message only when its
  own code differs from 0 (unchanged when that code is 0); if the update's code differs
  from 0, only the update is sent, never the deletion, and the message returned is the
  fixed prefix followed by the text of the update's message.
\<close>

theorem user_delete_default_flow:
  assumes "or_default set_offline_first True"
    and "fst (user_update be log token user_id None None None None None (Some 3)) = JDict d"
  shows
    "(py_eq_zero (dict_get d ''code'' JNull) \<longrightarrow>
        sent str_of be log (UserDelete token user_id set_offline_first) =
          [offline_request token user_id, delete_request token user_id] \<and>
        (fst (make_api_request be (log @ [offline_request token user_id]) ''POST''
                ''/api/open/v1/user/delete'' (Some token) (json_kw [(''id'', JStr user_id)])) =
           JDict r \<longrightarrow>
         fst (call_tool str_of be log (UserDelete token user_id set_offline_first)) =
           Inr (JDict (if py_eq_zero (dict_get r ''code'' JNull) then r
                       else dict_set ''message''
                              (JStr (py_str str_of (dict_get r ''message'' (JStr []))
                                     @ deletion_hint)) r)))) \<and>
     (\<not> py_eq_zero (dict_get d ''code'' JNull) \<longrightarrow>
        sent str_of be log (UserDelete token user_id set_offline_first) =
          [offline_request token user_id] \<and>
        result_field (fst (call_tool str_of be log (UserDelete token user_id set_offline_first)))
          ''message'' =
          Some (JStr (offline_failed_prefix
                      @ py_str str_of (dict_get d ''message'' (JStr [])))))"
  using assms
  by (simp add: sent_user_delete user_delete_def split_beta snd_user_update_offline
      fst_delete_step annotate_delete_result_def offline_abort_def)

theorem user_delete_default_flow_witness:
  "or_default None True \<and>
   sent plain_str
     (scripted [Inr (ok_response (JDict [(''code'', JInt 0), (''message'', JStr ''ok'')])),
                Inr (ok_response (JDict [(''code'', JInt 1001),
                                         (''message'', JStr ''still active'')]))])
     [] (UserDelete ''tok'' ''u1'' None) =
     [offline_request ''tok'' ''u1'', delete_request ''tok'' ''u1''] \<and>
   fst (call_tool plain_str
          (scripted [Inr (ok_response (JDict [(''code'', JInt 0), (''message'', JStr ''ok'')])),
                     Inr (ok_response (JDict [(''code'', JInt 1001),
                                              (''message'', JStr ''still active'')]))])
          [] (UserDelete ''tok'' ''u1'' None)) =
     Inr (JDict [(''code'', JInt 1001),
                 (''message'', JStr (''still active'' @ deletion_hint))]) \<and>
   sent plain_str
     (scripted [Inr (ok_response (JDict [(''code'', JInt 403),
                                         (''message'', JStr ''forbidden'')]))])
     [] (UserDelete ''tok'' ''u1'' None) = [offline_request ''tok'' ''u1''] \<and>
   result_field
     (fst (call_tool plain_str
             (scripted [Inr (ok_response (JDict [(''code'', JInt 403),
                                                 (''message'', JStr ''forbidden'')]))])
             [] (UserDelete ''tok'' ''u1'' None))) ''message'' =
     Some (JStr (offline_failed_prefix @ ''forbidden''))"
proof -
  have h1: "or_default None True"
    by (simp add: or_default_def)
  have h2: "fst (user_update
          (scripted [Inr (ok_response (JDict [(''code'', JInt 0), (''message'', JStr ''ok'')])),
                     Inr (ok_response (JDict [(''code'', JInt 1001),
                                              (''message'', JStr ''still active'')]))])
          [] ''tok'' ''u1'' None None None None None (Some 3)) =
     JDict [(''code'', JInt 0), (''message'', JStr ''ok'')]"
    by (simp add: user_update_offline make_api_request_result scripted_def ok_response_def)
  have h3: "fst (make_api_request
          (scripted [Inr (ok_response (JDict [(''code'', JInt 0), (''message'', JStr ''ok'')])),
                     Inr (ok_response (JDict [(''code'', JInt 1001),
                                              (''message'', JStr ''still active'')]))])
          ([] @ [offline_request ''tok'' ''u1'']) ''POST'' ''/api/open/v1/user/delete''
          (Some ''tok'') (json_kw [(''id'', JStr ''u1'')])) =
     JDict [(''code'', JInt 1001), (''message'', JStr ''still active'')]"
    by (simp add: make_api_request_result scripted_def ok_response_def)
  have h4: "fst (user_update
          (scripted [Inr (ok_response (JDict [(''code'', JInt 403),
                                              (''message'', JStr ''forbidden'')]))])
          [] ''tok'' ''u1'' None None None None None (Some 3)) =
     JDict [(''code'', JInt 403), (''message'', JStr ''forbidden'')]"
    by (simp add: user_update_offline make_api_request_result scripted_def ok_response_def)
  show ?thesis
    using h1 h3
      user_delete_default_flow [OF h1 h2, where str_of = plain_str
        and r = "[(''code'', JInt 1001), (''message'', JStr ''still active'')]"]
      user_delete_default_flow [OF h1 h4, where str_of = plain_str]
    by (simp add: dict_get_def)
qed

section \<open>Network failure\<close>

text \<open>
  Claim C1 as stated fails in three places when every request raises. \<^verbatim>\<open>issue_token\<close>
  raises \<^verbatim>\<open>AttributeError\<close>: the envelope has no key \<^verbatim>\<open>error\<close> and its \<^verbatim>\<open>data\<close> is \<^verbatim>\<open>None\<close>, on
  which \<^verbatim>\<open>.get\<close> is called. \<^verbatim>\<open>user_delete\<close> with the pre-step returns a dict without the key
  \<^verbatim>\<open>success\<close>. And an exception whose text is empty gives an empty message.
\<close>

theorem network_failure_counterexample:
  "fst (call_tool plain_str (always_raises ''timed out'') [] (IssueToken ''key-id'' ''secret'')) =
     Inl AttributeError \<and>
   result_keys (fst (call_tool plain_str (always_raises ''timed out'') []
                       (UserDelete ''tok'' ''u1'' None))) =
     [''code'', ''action'', ''message'', ''data''] \<and>
   result_field (fst (call_tool plain_str (always_raises []) [] (RoleList ''tok''))) ''message'' =
     Some (JStr [])"
  by (simp add: issue_token_def issue_token_result_def user_delete_def or_default_def
      user_update_offline offline_abort_def returns_def role_list_def make_api_request_result
      always_raises_def failure_envelope_def dict_get_def Let_def split_beta)

text \<open>
  Claim C1, amended. When every request raises an exception with text \<open>e\<close>, every
  token-taking operation returns a dict and raises nothing. For all of them but
  \<^verbatim>\<open>user_delete\<close> it is the failure envelope: \<^verbatim>\<open>code\<close> 500, \<^verbatim>\<open>action\<close> \<^verbatim>\<open>"alert"\<close>, \<^verbatim>\<open>message\<close>
  \<open>e\<close>, \<^verbatim>\<open>data\<close> \<^verbatim>\<open>None\<close>, \<^verbatim>\<open>success\<close> \<^verbatim>\<open>False\<close>. \<^verbatim>\<open>user_delete\<close> without the pre-step returns
  the envelope with the hint appended to \<open>e\<close>; with the pre-step it returns \<^verbatim>\<open>code\<close> 500,
  \<^verbatim>\<open>action\<close> \<^verbatim>\<open>"alert"\<close>, the prefixed message and \<^verbatim>\<open>data\<close> \<^verbatim>\<open>None\<close>, without \<^verbatim>\<open>success\<close>.
  The message is empty only where \<open>e\<close> is. Nothing is said of \<^verbatim>\<open>issue_token\<close>.
\<close>

theorem network_failure_results:
  assumes "\<forall>l r. be l r = Inl e"
    and "token_of call \<noteq> None"
  shows "fst (call_tool str_of be log call) =
           Inr (case call of
                  UserDelete t u so \<Rightarrow>
                    if or_default so True
                    then JDict [(''code'', JInt 500), (''action'', JStr ''alert''),
                                (''message'', JStr (offline_failed_prefix @ e)),
                                (''data'', JNull)]
                    else JDict [(''code'', JInt 500), (''action'', JStr ''alert''),
                                (''message'', JStr (e @ deletion_hint)),
                                (''data'', JNull), (''success'', JBool False)]
                | _ \<Rightarrow>
                    JDict [(''code'', JInt 500), (''action'', JStr ''alert''),
                           (''message'', JStr e), (''data'', JNull),
                           (''success'', JBool False)])"
proof (cases call)
  case (IssueToken k s)
  with assms(2) show ?thesis by simp
next
  case (UserDelete t u so)
  then show ?thesis
    using assms(1)
    by (simp add: user_delete_def split_beta user_update_offline fst_delete_step
        make_api_request_down failure_envelope_def annotate_delete_result_def offline_abort_def
        dict_get_def)
qed (simp_all add: returns_def op_defs Let_def make_api_request_down [OF assms(1)]
    failure_envelope_def)

theorem network_failure_results_witness:
  "token_of (DepartmentDetail ''tok'' ''d1'') \<noteq> None \<and>
   fst (call_tool plain_str (always_raises ''timed out'') [] (DepartmentDetail ''tok'' ''d1'')) =
     Inr (JDict [(''code'', JInt 500), (''action'', JStr ''alert''),
                 (''message'', JStr ''timed out''), (''data'', JNull),
                 (''success'', JBool False)]) \<and>
   fst (call_tool plain_str (always_raises ''timed out'') [] (UserDelete ''tok'' ''u1'' None)) =
     Inr (JDict [(''code'', JInt 500), (''action'', JStr ''alert''),
                 (''message'', JStr (offline_failed_prefix @ ''timed out'')),
                 (''data'', JNull)])"
proof -
  have down: "\<forall>l r. always_raises ''timed out'' l r = Inl ''timed out''"
    by (simp add: always_raises_def)
  have t1: "token_of (DepartmentDetail ''tok'' ''d1'') \<noteq> None"
    by simp
  have t2: "token_of (UserDelete ''tok'' ''u1'' None) \<noteq> None"
    by simp
  show ?thesis
    using network_failure_results [OF down t1, where str_of = plain_str and log = "[]"]
      network_failure_results [OF down t2, where str_of = plain_str and log = "[]"]
    by (simp add: or_default_def)
qed


section \<open>Request payloads\<close>

text \<open>
  Claim C4 as stated fails for \<^verbatim>\<open>user_create\<close>: called with the token, \<^verbatim>\<open>username\<close>,
  \<^verbatim>\<open>full_name\<close> and \<^verbatim>\<open>department_id\<close> only, it sends a body with five keys, the three of
  the required arguments and \<^verbatim>\<open>gender\<close> and \<^verbatim>\<open>status\<close> with their default 1.
\<close>

theorem required_only_payload_counterexample:
  "optionals_unset (UserCreate ''tok'' ''alice'' ''Alice A'' ''d1'' None None None None None) \<and>
   required_keys (UserCreate ''tok'' ''alice'' ''Alice A'' ''d1'' None None None None None) =
     [''username'', ''full_name'', ''department_id''] \<and>
   map payload (sent plain_str (always_raises ''down'') []
                  (UserCreate ''tok'' ''alice'' ''Alice A'' ''d1'' None None None None None)) =
     [[(''username'', JStr ''alice''), (''full_name'', JStr ''Alice A''),
       (''department_id'', JStr ''d1''), (''gender'', JInt 1), (''status'', JInt 1)]]"
  by (simp add: sent_def returns_def make_api_request_log user_create_def set_if_not_none_def
      or_default_def payload_build_request)

text \<open>
  Claim C4, amended. When a call supplies the required arguments only, the payload of its
  request has exactly the keys of the required arguments other than the token, with two
  exceptions. \<^verbatim>\<open>user_create\<close> sends \<^verbatim>\<open>gender\<close> and \<^verbatim>\<open>status\<close> as well, both 1, the defaults of
  its signature. \<^verbatim>\<open>user_delete\<close> first sends the status update with the keys \<^verbatim>\<open>id\<close> and
  \<^verbatim>\<open>status\<close> (3), and after it, if it gets that far, the deletion with the key \<^verbatim>\<open>id\<close>.
  No key of an argument whose default is \<^verbatim>\<open>None\<close> is present.
\<close>

theorem required_only_payloads:
  assumes "optionals_unset call"
  shows "case call of
           UserCreate t un fn d em mo pw g st \<Rightarrow>
             map payload_keys (sent str_of be log call) =
               [required_keys call @ [''gender'', ''status'']] \<and>
             sent_values str_of be log call ''gender'' = [Some (JInt 1)] \<and>
             sent_values str_of be log call ''status'' = [Some (JInt 1)]
         | UserDelete t u so \<Rightarrow>
             map payload_keys (sent str_of be log call) \<in>
               {[[''id'', ''status'']], [[''id'', ''status''], required_keys call]} \<and>
             hd (sent_values str_of be log call ''status'') = Some (JInt 3)
         | _ \<Rightarrow> map payload_keys (sent str_of be log call) = [required_keys call]"
proof (cases call)
  case (IssueToken k s)
  then show ?thesis
    by (simp add: sent_def issue_token_def split_beta Let_def make_api_request_log
        payload_keys_def payload_build_request)
next
  case (UserDelete t u so)
  with assms show ?thesis
    by (simp add: sent_values_def sent_user_delete or_default_def payload_keys_requests
        split: sum.splits)
qed (use assms in \<open>simp_all add: sent_values_def sent_def sent_returns op_defs Let_def
    set_if_not_none_def or_default_def payload_keys_def payload_build_request\<close>)

theorem required_only_payloads_witness:
  "optionals_unset (DepartmentCreate ''tok'' ''Sales'' ''root'' None) \<and>
   map payload_keys (sent plain_str (always_raises ''down'') []
                       (DepartmentCreate ''tok'' ''Sales'' ''root'' None)) =
     [[''name'', ''parent_id'']] \<and>
   optionals_unset (UserCreate ''tok'' ''alice'' ''Alice A'' ''d1'' None None None None None) \<and>
   map payload_keys (sent plain_str (always_raises ''down'') []
                       (UserCreate ''tok'' ''alice'' ''Alice A'' ''d1'' None None None None None)) =
     [[''username'', ''full_name'', ''department_id'', ''gender'', ''status'']]"
proof -
  have h1: "optionals_unset (DepartmentCreate ''tok'' ''Sales'' ''root'' None)"
    by simp
  have h2: "optionals_unset
              (UserCreate ''tok'' ''alice'' ''Alice A'' ''d1'' None None None None None)"
    by simp
  show ?thesis
    using required_only_payloads [OF h1, where str_of = plain_str and log = "[]"
        and be = "always_raises ''down''"]
      required_only_payloads [OF h2, where str_of = plain_str and log = "[]"
        and be = "always_raises ''down''"]
    by simp
qed

text \<open>
  Claim C5 as stated fails: \<^verbatim>\<open>department_list\<close> called with the empty string as
  \<^verbatim>\<open>department_id\<close> sends an empty query, and \<^verbatim>\<open>set_offline_first\<close> of \<^verbatim>\<open>user_delete\<close>,
  given explicitly, has no key in the payload.
\<close>

theorem provided_optional_counterexample:
  "sent_values plain_str (always_raises ''down'') [] (DepartmentList ''tok'' (Some [])) ''id'' =
     [None] \<and>
   map payload (sent plain_str (always_raises ''down'') []
                  (UserDelete ''tok'' ''u1'' (Some False))) = [[(''id'', JStr ''u1'')]]"
  by (simp add: sent_values_def sent_def returns_def make_api_request_log department_list_def
      payload_build_request payload_requests user_delete_def snd_delete_step
      or_default_def)

text \<open>
  Claim C5, amended. An optional argument that is given is sent under its key with the
  value given, falsy or not (so \<^verbatim>\<open>order=0\<close> is sent), for every optional argument of
  \<^verbatim>\<open>department_create\<close>, \<^verbatim>\<open>department_update\<close>, \<^verbatim>\<open>role_create\<close>, \<^verbatim>\<open>role_update\<close>,
  \<^verbatim>\<open>user_create\<close> and \<^verbatim>\<open>user_update\<close>. \<^verbatim>\<open>department_list\<close> sends a non-empty
  \<^verbatim>\<open>department_id\<close> under \<^verbatim>\<open>id\<close>. \<^verbatim>\<open>user_list\<close> sends \<^verbatim>\<open>recursive\<close> as 1 or 0. The flag
  \<^verbatim>\<open>set_offline_first\<close> of \<^verbatim>\<open>user_delete\<close> is never part of a payload.
\<close>

theorem provided_optionals_are_sent:
  "(d \<noteq> [] \<longrightarrow>
      sent_values str_of be log (DepartmentList t (Some d)) ''id'' = [Some (JStr d)]) \<and>
   sent_values str_of be log (DepartmentCreate t n p (Some i)) ''order'' = [Some (JInt i)] \<and>
   sent_values str_of be log (DepartmentUpdate t d (Some s) oi) ''name'' = [Some (JStr s)] \<and>
   sent_values str_of be log (DepartmentUpdate t d os (Some i)) ''order'' = [Some (JInt i)] \<and>
   sent_values str_of be log (RoleCreate t n (Some s)) ''description'' = [Some (JStr s)] \<and>
   sent_values str_of be log (RoleUpdate t d (Some s) os) ''name'' = [Some (JStr s)] \<and>
   sent_values str_of be log (RoleUpdate t d os (Some s)) ''description'' = [Some (JStr s)] \<and>
   sent_values str_of be log (UserList t d (Some b)) ''recursive'' =
     [Some (JInt (if b then 1 else 0))] \<and>
   sent_values str_of be log (UserCreate t un fn d (Some s) mo pw og ost) ''email'' =
     [Some (JStr s)] \<and>
   sent_values str_of be log (UserCreate t un fn d em (Some s) pw og ost) ''mobile'' =
     [Some (JStr s)] \<and>
   sent_values str_of be log (UserCreate t un fn d em mo (Some s) og ost) ''password'' =
     [Some (JStr s)] \<and>
   sent_values str_of be log (UserCreate t un fn d em mo pw (Some i) ost) ''gender'' =
     [Some (JInt i)] \<and>
   sent_values str_of be log (UserCreate t un fn d em mo pw og (Some i)) ''status'' =
     [Some (JInt i)] \<and>
   sent_values str_of be log (UserUpdate t u (Some s) em mo od rs oi) ''full_name'' =
     [Some (JStr s)] \<and>
   sent_values str_of be log (UserUpdate t u os (Some s) mo od rs oi) ''email'' =
     [Some (JStr s)] \<and>
   sent_values str_of be log (UserUpdate t u os em (Some s) od rs oi) ''mobile'' =
     [Some (JStr s)] \<and>
   sent_values str_of be log (UserUpdate t u os em mo (Some s) rs oi) ''department_id'' =
     [Some (JStr s)] \<and>
   sent_values str_of be log (UserUpdate t u os em mo od (Some ids) oi) ''role_ids'' =
     [Some (JList (map JStr ids))] \<and>
   sent_values str_of be log (UserUpdate t u os em mo od rs (Some i)) ''status'' =
     [Some (JInt i)] \<and>
   sent_values str_of be log (UserDelete t u (Some b)) ''set_offline_first'' \<in>
     {[None], [None, None]}"
proof -
  have del: "sent_values str_of be log (UserDelete t u (Some b)) ''set_offline_first'' \<in>
     {[None], [None, None]}"
    by (simp add: sent_values_def sent_user_delete payload_requests split: sum.splits)
  show ?thesis
    using del
    by (simp add: sent_values_def sent_def sent_returns op_defs Let_def or_default_def
        payload_build_request map_of_set_if_not_none map_of_dict_set)
qed

theorem provided_optionals_are_sent_witness:
  "''d7'' \<noteq> [] \<and>
   sent_values plain_str (always_raises ''down'') [] (DepartmentList ''tok'' (Some ''d7'')) ''id'' =
     [Some (JStr ''d7'')] \<and>
   sent_values plain_str (always_raises ''down'') []
     (DepartmentUpdate ''tok'' ''d7'' None (Some 0)) ''order'' = [Some (JInt 0)]"
  using provided_optionals_are_sent [where d = "''d7''" and t = "''tok''" and os = None
      and i = 0 and str_of = plain_str and be = "always_raises ''down''" and log = "[]"]
  by simp

end
